theory Spec2Isabelle
  imports Main "HOL-Library.Extended_Nat"
begin

section \<open>Strings and numbers as the service uses them\<close>

text \<open>
  JavaScript numbers are modelled as mathematical integers: identifiers and parsed file-name
  numbers as \<open>nat\<close>, the caller-supplied quality and the attempt counter as \<open>int\<close>.
  This is exact as long as every number stays below \<open>2 ^ 53\<close>, where a double holds an
  integer without rounding and a template literal prints it in plain decimal.
\<close>

definition digit_char :: "nat \<Rightarrow> char" where
  "digit_char n = char_of (48 + n)"

text \<open>The decimal text a template literal \<^verbatim>\<open>`${n}`\<close> prints for a non-negative integer.\<close>

fun show_nat :: "nat \<Rightarrow> string" where
  "show_nat n = (if n < 10 then [digit_char n] else show_nat (n div 10) @ [digit_char (n mod 10)])"

declare show_nat.simps [simp del]

definition show_int :: "int \<Rightarrow> string" where
  "show_int i = (if i < 0 then CHR ''-'' # show_nat (nat (- i)) else show_nat (nat i))"

text \<open>The character class \<^verbatim>\<open>\d\<close> of a regular expression without the unicode flag.\<close>

definition isDigit :: "char \<Rightarrow> bool" where
  "isDigit c \<longleftrightarrow> 48 \<le> (of_char c :: nat) \<and> (of_char c :: nat) \<le> 57"

text \<open>\<^verbatim>\<open>name.match(/\d+/)\<close>: the first maximal run of digits, or null.\<close>

definition match_digits :: "string \<Rightarrow> string option" where
  "match_digits s =
     (let ds = takeWhile isDigit (dropWhile (\<lambda>c. \<not> isDigit c) s)
      in if ds = [] then None else Some ds)"

text \<open>\<^verbatim>\<open>parseInt(ds, 10)\<close> on a string of digits.\<close>

definition parseInt :: "string \<Rightarrow> nat" where
  "parseInt ds = foldl (\<lambda>acc c. 10 * acc + (of_char c - 48)) 0 ds"

text \<open>\<^verbatim>\<open>s.startsWith(sub)\<close> and \<^verbatim>\<open>s.includes(sub)\<close>.\<close>

definition startsWith :: "string \<Rightarrow> string \<Rightarrow> bool" where
  "startsWith s sub \<longleftrightarrow> take (length sub) s = sub"

fun includes_str :: "string \<Rightarrow> string \<Rightarrow> bool" where
  "includes_str [] sub = (sub = [])"
| "includes_str (c # cs) sub = (startsWith (c # cs) sub \<or> includes_str cs sub)"

text \<open>\<^verbatim>\<open>xs.join(sep)\<close>.\<close>

fun join :: "string list \<Rightarrow> string \<Rightarrow> string" where
  "join [] sep = []"
| "join [x] sep = x"
| "join (x # y # ys) sep = x @ sep @ join (y # ys) sep"

section \<open>Entities and transfer objects\<close>

text \<open>
  Modelled from the spec: the entity classes \<^verbatim>\<open>Person\<close>, \<^verbatim>\<open>FingerprintType\<close> and
  \<^verbatim>\<open>PersonFingerprint\<close> and the transfer object \<^verbatim>\<open>CreatePersonFingerprintDto\<close> are
  imported by the service, their declarations are not part of the sources. The records
  below hold the fields the service reads and writes, under the names it uses. A fingerprint
  row carries its \<^verbatim>\<open>fingerprintType\<close> relation loaded, as every query of the service
  asks for it, and the identifier of the person it belongs to.
\<close>

record person =
  p_id :: nat
  identityCard :: string

record fingerprint_type =
  ft_id :: nat
  name :: string
  short_name :: string

record person_fingerprint =
  pf_id :: "nat option"
  pf_person :: nat
  quality :: int
  attempts :: int
  path :: string
  fingerprintType :: fingerprint_type
  updatedAt :: nat

record fingerprint_dto =
  wsq :: string
  dto_quality :: int
  fingerprintTypeId :: nat

record create_person_fingerprint_dto =
  personId :: nat
  fingerprints :: "fingerprint_dto list"

record upload_results =
  success :: "string list"
  error :: "string list"

record create_response =
  message :: string
  registros :: upload_results

record comparison_item =
  ci_id :: "nat option"
  ci_quality :: int
  ci_fingerprintType :: fingerprint_type
  wsqBase64 :: string

section \<open>The archive and the database\<close>

datatype ftp_op =
    ConnectToFtp
  | ListFiles string
  | UploadFile string string
  | RemoveFile string
  | DownloadFile string
  | OnDestroy

datatype db_op =
    FindOnePerson nat
  | FindPersonWithFingerprints nat
  | FindPersonFingerprint nat nat
  | FindFingerprintType nat
  | SavePersonFingerprint nat nat

datatype exception =
    RpcException "nat option" string
  | Error string
  | TypeError
  | FtpError ftp_op
  | QueryFailedError db_op

text \<open>
  The archive: the files it holds (full path and content), whether the client is connected,
  and the operations the service has asked for, in order.
\<close>

record ftp_server =
  ftp_files :: "(string \<times> string) list"
  ftp_connected :: bool
  ftp_log :: "ftp_op list"

record database =
  persons :: "person list"
  fingerprintTypes :: "fingerprint_type list"
  personFingerprints :: "person_fingerprint list"
  next_id :: nat

record world =
  db :: database
  ftp :: ftp_server

text \<open>
  What the service cannot decide: which archive operations and which queries fail, and
  the time. A fault may depend on the operation and on everything that happened before.
\<close>

record env =
  ftp_fault :: "ftp_server \<Rightarrow> ftp_op \<Rightarrow> bool"
  db_fault :: "database \<Rightarrow> db_op \<Rightarrow> bool"
  now :: nat

subsection \<open>The archive client\<close>

text \<open>
  Modelled from the spec: the class \<^verbatim>\<open>FtpService\<close> of \<^verbatim>\<open>src/common\<close> is not part of
  the sources. The spec gives its operations: connect, list the names of the files of a
  directory, upload a content at a full path, download the content of a full path, remove
  a full path, disconnect; upload, download and remove may fail. Here every operation but
  the disconnection may fail, a failed operation leaves the files as they are, and a
  download of a path that holds no file fails. The spec does not say what the removal of a
  path that holds no file does: here it changes nothing, and whether it fails is left to the
  fault, like every other failure. An upload replaces the file at its path. The listing
  gives the names of the files that lie directly in the directory, whose path ends with a
  slash.
\<close>

definition logged :: "ftp_op \<Rightarrow> ftp_server \<Rightarrow> ftp_server" where
  "logged op s = s\<lparr>ftp_log := ftp_log s @ [op]\<rparr>"

definition connectToFtp :: "env \<Rightarrow> ftp_server \<Rightarrow> (exception + unit) \<times> ftp_server" where
  "connectToFtp e s =
     (if ftp_fault e s ConnectToFtp then (Inl (FtpError ConnectToFtp), logged ConnectToFtp s)
      else (Inr (), (logged ConnectToFtp s)\<lparr>ftp_connected := True\<rparr>))"

definition onDestroy :: "ftp_server \<Rightarrow> ftp_server" where
  "onDestroy s = (logged OnDestroy s)\<lparr>ftp_connected := False\<rparr>"

definition entryName :: "string \<Rightarrow> string \<Rightarrow> string option" where
  "entryName dir p =
     (let n = drop (length dir) p
      in if startsWith p dir \<and> n \<noteq> [] \<and> CHR ''/'' \<notin> set n then Some n else None)"

definition directory :: "string \<Rightarrow> (string \<times> string) list \<Rightarrow> string list" where
  "directory dir fs = List.map_filter (\<lambda>(p, c). entryName dir p) fs"

definition listFiles :: "env \<Rightarrow> string \<Rightarrow> ftp_server \<Rightarrow> (exception + string list) \<times> ftp_server" where
  "listFiles e dir s =
     (if ftp_fault e s (ListFiles dir) then (Inl (FtpError (ListFiles dir)), logged (ListFiles dir) s)
      else (Inr (directory dir (ftp_files s)), logged (ListFiles dir) s))"

definition uploadFile ::
  "env \<Rightarrow> string \<Rightarrow> string \<Rightarrow> string \<Rightarrow> ftp_server \<Rightarrow> (exception + unit) \<times> ftp_server" where
  "uploadFile e buffer dir p s =
     (if ftp_fault e s (UploadFile dir p) then (Inl (FtpError (UploadFile dir p)), logged (UploadFile dir p) s)
      else (Inr (), (logged (UploadFile dir p) s)
              \<lparr>ftp_files := filter (\<lambda>(q, c). q \<noteq> p) (ftp_files s) @ [(p, buffer)]\<rparr>))"

definition removeFile :: "env \<Rightarrow> string \<Rightarrow> ftp_server \<Rightarrow> (exception + unit) \<times> ftp_server" where
  "removeFile e p s =
     (if ftp_fault e s (RemoveFile p) then (Inl (FtpError (RemoveFile p)), logged (RemoveFile p) s)
      else (Inr (), (logged (RemoveFile p) s)\<lparr>ftp_files := filter (\<lambda>(q, c). q \<noteq> p) (ftp_files s)\<rparr>))"

definition downloadFile :: "env \<Rightarrow> string \<Rightarrow> ftp_server \<Rightarrow> (exception + string) \<times> ftp_server" where
  "downloadFile e p s =
     (if ftp_fault e s (DownloadFile p) then (Inl (FtpError (DownloadFile p)), logged (DownloadFile p) s)
      else (case map_of (ftp_files s) p of
              None \<Rightarrow> (Inl (FtpError (DownloadFile p)), logged (DownloadFile p) s)
            | Some c \<Rightarrow> (Inr c, logged (DownloadFile p) s)))"

subsection \<open>The repositories\<close>

text \<open>
  The queries the service sends through its repositories. A query may fail; a failed save
  writes nothing. A save of an entity without identifier inserts a row under a fresh
  identifier, a save of an entity with an identifier replaces the row of that identifier.
\<close>

definition personFingerprintRepository_findOne ::
  "env \<Rightarrow> database \<Rightarrow> nat \<Rightarrow> nat \<Rightarrow> exception + person_fingerprint option" where
  "personFingerprintRepository_findOne e d pid tid =
     (if db_fault e d (FindPersonFingerprint pid tid) then Inl (QueryFailedError (FindPersonFingerprint pid tid))
      else Inr (find (\<lambda>r. pf_person r = pid \<and> ft_id (fingerprintType r) = tid) (personFingerprints d)))"

definition fingerprintTypeRepository_findOne ::
  "env \<Rightarrow> database \<Rightarrow> nat \<Rightarrow> exception + fingerprint_type option" where
  "fingerprintTypeRepository_findOne e d tid =
     (if db_fault e d (FindFingerprintType tid) then Inl (QueryFailedError (FindFingerprintType tid))
      else Inr (find (\<lambda>t. ft_id t = tid) (fingerprintTypes d)))"

definition personRepository_findOne :: "env \<Rightarrow> database \<Rightarrow> nat \<Rightarrow> exception + person option" where
  "personRepository_findOne e d pid =
     (if db_fault e d (FindPersonWithFingerprints pid) then Inl (QueryFailedError (FindPersonWithFingerprints pid))
      else Inr (find (\<lambda>p. p_id p = pid) (persons d)))"

text \<open>The relation \<^verbatim>\<open>person.personFingerprints\<close>, as a join loads it.\<close>

definition person_personFingerprints :: "database \<Rightarrow> person \<Rightarrow> person_fingerprint list" where
  "person_personFingerprints d p = filter (\<lambda>r. pf_person r = p_id p) (personFingerprints d)"

text \<open>
  Modelled from the spec: the column defaults of the entity \<^verbatim>\<open>PersonFingerprint\<close> are
  missing with its declaration. The spec has a record created with \<open>attempts = 1\<close>; the
  time of the last update starts at the time of the creation.
\<close>

definition default_attempts :: int where
  "default_attempts = 1"

definition personFingerprintRepository_create ::
  "env \<Rightarrow> person \<Rightarrow> int \<Rightarrow> fingerprint_type \<Rightarrow> string \<Rightarrow> person_fingerprint" where
  "personFingerprintRepository_create e p q t pth =
     \<lparr>pf_id = None, pf_person = p_id p, quality = q, attempts = default_attempts, path = pth,
      fingerprintType = t, updatedAt = now e\<rparr>"

definition replaceRow :: "nat \<Rightarrow> person_fingerprint \<Rightarrow> database \<Rightarrow> database" where
  "replaceRow i r d =
     d\<lparr>personFingerprints := map (\<lambda>x. if pf_id x = Some i then r else x) (personFingerprints d)\<rparr>"

definition insertRow :: "person_fingerprint \<Rightarrow> database \<Rightarrow> database" where
  "insertRow r d =
     d\<lparr>personFingerprints := personFingerprints d @ [r\<lparr>pf_id := Some (next_id d)\<rparr>],
       next_id := Suc (next_id d)\<rparr>"

definition personFingerprintRepository_save ::
  "env \<Rightarrow> person_fingerprint \<Rightarrow> database \<Rightarrow> (exception + person_fingerprint) \<times> database" where
  "personFingerprintRepository_save e r d =
     (let op = SavePersonFingerprint (pf_person r) (ft_id (fingerprintType r))
      in if db_fault e d op then (Inl (QueryFailedError op), d)
         else (case pf_id r of
                 None \<Rightarrow> (Inr (r\<lparr>pf_id := Some (next_id d)\<rparr>), insertRow r d)
               | Some i \<Rightarrow> (Inr r, replaceRow i r d)))"

section \<open>The service\<close>

subsection \<open>findOnePerson\<close>

text \<open>
  Both callers modelled here pass the decimal text of a person identifier as the term, so
  the query matches a person with that identifier or with that text as identity card.
\<close>

definition findOnePerson :: "env \<Rightarrow> database \<Rightarrow> nat \<Rightarrow> exception + person" where
  "findOnePerson e d pid =
     (if db_fault e d (FindOnePerson pid) then Inl (QueryFailedError (FindOnePerson pid))
      else (case find (\<lambda>p. p_id p = pid \<or> identityCard p = show_nat pid) (persons d) of
              None \<Rightarrow> Inl (RpcException (Some 404) (''Persona con '' @ show_nat pid @ '' no encontrada''))
            | Some p \<Rightarrow> Inr p))"

subsection \<open>createPersonFingerPrint\<close>

text \<open>
  The numbers of the candidate files: the names that include the short name, each mapped to
  the number of its first run of digits, or to null.
\<close>

definition candidateNumbers :: "string \<Rightarrow> string list \<Rightarrow> nat option list" where
  "candidateNumbers short files =
     map (\<lambda>n. map_option parseInt (match_digits n)) (filter (\<lambda>n. includes_str n short) files)"

definition quality_exist :: "int \<Rightarrow> nat option list \<Rightarrow> bool" where
  "quality_exist q numbers = list_ex (\<lambda>number. case number of None \<Rightarrow> False | Some n \<Rightarrow> int n = q) numbers"

text \<open>\<^verbatim>\<open>Boolean(number)\<close>: false on null and on zero.\<close>

definition Boolean :: "nat option \<Rightarrow> bool" where
  "Boolean number = (case number of None \<Rightarrow> False | Some n \<Rightarrow> n \<noteq> 0)"

definition smallestNumber :: "nat option list \<Rightarrow> enat" where
  "smallestNumber numbers =
     foldl (\<lambda>min num. if enat num < min then enat num else min) \<infinity>
       (List.map_filter (\<lambda>number. if Boolean number then number else None) numbers)"

text \<open>\<^verbatim>\<open>smallestNumber < quality\<close> and \<^verbatim>\<open>`${smallestNumber}`\<close>, where the number may be \<^verbatim>\<open>Infinity\<close>.\<close>

definition number_lt :: "enat \<Rightarrow> int \<Rightarrow> bool" where
  "number_lt m q = (case m of enat n \<Rightarrow> int n < q | \<infinity> \<Rightarrow> False)"

definition show_number :: "enat \<Rightarrow> string" where
  "show_number m = (case m of enat n \<Rightarrow> show_nat n | \<infinity> \<Rightarrow> ''Infinity'')"

text \<open>The numbers the candidate files carry, those that have one.\<close>

definition parsedNumbers :: "nat option list \<Rightarrow> nat set" where
  "parsedNumbers numbers = {n. Some n \<in> set numbers}"

definition initialPath :: "nat \<Rightarrow> string" where
  "initialPath pid = ''Person/Fingerprints/'' @ show_nat pid @ ''/''"

text \<open>The body of the \<^verbatim>\<open>try\<close> block: what is sent to the archive for one fingerprint.\<close>

definition tryUpload ::
  "env \<Rightarrow> string \<Rightarrow> person_fingerprint \<Rightarrow> int \<Rightarrow> string \<Rightarrow> string \<Rightarrow> ftp_server
     \<Rightarrow> (exception + unit) \<times> ftp_server" where
  "tryUpload e dir personFingerprint q buffer pth s =
     (if attempts personFingerprint > 3 then
        (case listFiles e dir s of
           (Inl x, s1) \<Rightarrow> (Inl x, s1)
         | (Inr files, s1) \<Rightarrow>
             (let numbers = candidateNumbers (short_name (fingerprintType personFingerprint)) files
              in if number_lt (smallestNumber numbers) q \<and> \<not> quality_exist q numbers then
                   (let remove_path = dir @ short_name (fingerprintType personFingerprint)
                                        @ ''_'' @ show_number (smallestNumber numbers) @ ''.wsq''
                    in case removeFile e remove_path s1 of
                         (Inl x, s2) \<Rightarrow> (Inl x, s2)
                       | (Inr u, s2) \<Rightarrow> uploadFile e buffer dir pth s2)
                 else (Inr (), s1)))
      else uploadFile e buffer dir pth s)"

text \<open>The update of a stored row: a better quality replaces the old one, the attempt counts.\<close>

definition updateExisting :: "env \<Rightarrow> int \<Rightarrow> person_fingerprint \<Rightarrow> person_fingerprint" where
  "updateExisting e q r =
     (let r1 = (if q > quality r then r\<lparr>quality := q, updatedAt := now e\<rparr> else r)
      in r1\<lparr>attempts := attempts r1 + 1\<rparr>)"

text \<open>
  The first half of the callback of \<^verbatim>\<open>reduce\<close>: the entity to save and its fingerprint
  type, from the stored row when there is one, from the fingerprint types otherwise.
\<close>

definition prepareFingerprint ::
  "env \<Rightarrow> nat \<Rightarrow> person \<Rightarrow> fingerprint_dto \<Rightarrow> database
     \<Rightarrow> exception + person_fingerprint \<times> fingerprint_type" where
  "prepareFingerprint e pid p fingerprint d =
     (let q = dto_quality fingerprint;
          tid = fingerprintTypeId fingerprint
      in case personFingerprintRepository_findOne e d pid tid of
           Inl x \<Rightarrow> Inl x
         | Inr (Some r) \<Rightarrow> Inr (updateExisting e q r, fingerprintType r)
         | Inr None \<Rightarrow>
             (case fingerprintTypeRepository_findOne e d tid of
                Inl x \<Rightarrow> Inl x
              | Inr None \<Rightarrow>
                  Inl (RpcException None (''Tipo de huella con ID '' @ show_nat tid @ '' no encontrado''))
              | Inr (Some t) \<Rightarrow>
                  Inr (personFingerprintRepository_create e p q t (initialPath pid @ short_name t @ ''.wsq''), t)))"

text \<open>
  The callback of \<^verbatim>\<open>reduce\<close>. The payload is kept as the text it arrives as: decoding
  a string from base64 never fails, and no decision reads the bytes.
\<close>

definition processFingerprint ::
  "env \<Rightarrow> nat \<Rightarrow> person \<Rightarrow> upload_results \<Rightarrow> fingerprint_dto \<Rightarrow> world
     \<Rightarrow> (exception + upload_results) \<times> world" where
  "processFingerprint e pid p acc fingerprint w =
     (let q = dto_quality fingerprint;
          buffer = wsq fingerprint
      in case prepareFingerprint e pid p fingerprint (db w) of
           Inl x \<Rightarrow> (Inl x, w)
         | Inr (r, t) \<Rightarrow>
             (case personFingerprintRepository_save e r (db w) of
                (Inl x, d1) \<Rightarrow> (Inl x, w\<lparr>db := d1\<rparr>)
              | (Inr personFingerprint, d1) \<Rightarrow>
                  (let pth = initialPath pid @ short_name (fingerprintType personFingerprint)
                               @ ''_'' @ show_int q @ ''.wsq''
                   in case tryUpload e (initialPath pid) personFingerprint q buffer pth (ftp w) of
                        (Inr u, s1) \<Rightarrow> (Inr (acc\<lparr>success := success acc @ [name t]\<rparr>), \<lparr>db = d1, ftp = s1\<rparr>)
                      | (Inl x, s1) \<Rightarrow> (Inr (acc\<lparr>error := error acc @ [name t]\<rparr>), \<lparr>db = d1, ftp = s1\<rparr>))))"

text \<open>
  \<^verbatim>\<open>fingerprints.reduce\<close> over the promise of the accumulator: the callbacks run one
  after the other, and once one of them has thrown, every later one rethrows it at once.
\<close>

fun reduceFingerprints ::
  "env \<Rightarrow> nat \<Rightarrow> person \<Rightarrow> fingerprint_dto list \<Rightarrow> upload_results \<Rightarrow> world
     \<Rightarrow> (exception + upload_results) \<times> world" where
  "reduceFingerprints e pid p [] acc w = (Inr acc, w)"
| "reduceFingerprints e pid p (f # fs) acc w =
     (case processFingerprint e pid p acc f w of
        (Inl x, w1) \<Rightarrow> (Inl x, w1)
      | (Inr acc1, w1) \<Rightarrow> reduceFingerprints e pid p fs acc1 w1)"

definition registered_message :: "string list \<Rightarrow> string" where
  "registered_message succ =
     (if length succ > 0 then ''Las huellas: '' @ join succ '', '' @ '' se han registrado correctamente.''
      else ''No se registr'' @ [char_of (195 :: nat), char_of (179 :: nat)]
             @ '' ninguna huella correctamente.'')"

text \<open>
  The person is looked up while the connection is opened: both have started when either
  fails, so the connection attempt is made also when the person is not found.
\<close>

definition createPersonFingerPrint ::
  "env \<Rightarrow> create_person_fingerprint_dto \<Rightarrow> world \<Rightarrow> (exception + create_response) \<times> world" where
  "createPersonFingerPrint e dto w =
     (let found = findOnePerson e (db w) (personId dto);
          (connected, s1) = connectToFtp e (ftp w);
          w1 = w\<lparr>ftp := s1\<rparr>
      in case found of
           Inl x \<Rightarrow> (Inl x, w1)
         | Inr p \<Rightarrow>
             (case connected of
                Inl x \<Rightarrow> (Inl x, w1)
              | Inr u \<Rightarrow>
                  (case reduceFingerprints e (personId dto) p (fingerprints dto) \<lparr>success = [], error = []\<rparr> w1 of
                     (Inl x, w2) \<Rightarrow> (Inl x, w2)
                   | (Inr uploadResults, w2) \<Rightarrow>
                       (Inr \<lparr>message = registered_message (success uploadResults),
                             registros = uploadResults\<rparr>,
                        w2\<lparr>ftp := onDestroy (ftp w2)\<rparr>))))"

subsection \<open>showFingerprintRegistered\<close>

definition showFingerprintRegistered ::
  "env \<Rightarrow> database \<Rightarrow> nat \<Rightarrow> exception + (nat \<times> string) list" where
  "showFingerprintRegistered e d pid =
     (case personRepository_findOne e d pid of
        Inl x \<Rightarrow> Inl x
      | Inr None \<Rightarrow> Inl TypeError
      | Inr (Some p) \<Rightarrow>
          Inr (map (\<lambda>fingerprint. (ft_id (fingerprintType fingerprint), name (fingerprintType fingerprint)))
                 (person_personFingerprints d p)))"

subsection \<open>getFingerprintComparison\<close>

text \<open>The loop over the fingerprints of the person, inside the \<^verbatim>\<open>try\<close> block.\<close>

fun downloadFingerprints ::
  "env \<Rightarrow> person_fingerprint list \<Rightarrow> comparison_item list \<Rightarrow> ftp_server
     \<Rightarrow> (exception + comparison_item list) \<times> ftp_server" where
  "downloadFingerprints e [] fingerprintsData s = (Inr fingerprintsData, s)"
| "downloadFingerprints e (fingerprint # rest) fingerprintsData s =
     (case downloadFile e (path fingerprint) s of
        (Inl x, s1) \<Rightarrow> (Inl (Error (''Failed to download file at path: '' @ path fingerprint)), s1)
      | (Inr fileBuffer, s1) \<Rightarrow>
          downloadFingerprints e rest
            (fingerprintsData @ [\<lparr>ci_id = pf_id fingerprint, ci_quality = quality fingerprint,
                                   ci_fingerprintType = fingerprintType fingerprint,
                                   wsqBase64 = fileBuffer\<rparr>]) s1)"

definition getFingerprintComparison ::
  "env \<Rightarrow> nat \<Rightarrow> world \<Rightarrow> (exception + comparison_item list) \<times> world" where
  "getFingerprintComparison e pid w =
     (case findOnePerson e (db w) pid of
        Inl x \<Rightarrow> (Inl x, w)
      | Inr p \<Rightarrow>
          (if length (person_personFingerprints (db w) p) = 0 then
             (Inl (RpcException (Some 404) (''Person with ID: '' @ show_nat pid @ '' not found'')), w)
           else
             (case connectToFtp e (ftp w) of
                (Inl x, s1) \<Rightarrow> (Inl x, w\<lparr>ftp := onDestroy s1\<rparr>)
              | (Inr u, s1) \<Rightarrow>
                  (case downloadFingerprints e (person_personFingerprints (db w) p) [] s1 of
                     (r, s2) \<Rightarrow> (r, w\<lparr>ftp := onDestroy s2\<rparr>)))))"

text \<open>An item of the comparison set is the download of a stored record from the given files.\<close>

definition downloaded :: "(string \<times> string) list \<Rightarrow> person_fingerprint \<Rightarrow> comparison_item \<Rightarrow> bool" where
  "downloaded files f it \<longleftrightarrow>
     map_of files (path f) = Some (wsqBase64 it) \<and> ci_id it = pf_id f \<and> ci_quality it = quality f
     \<and> ci_fingerprintType it = fingerprintType f"



text \<open>The operations on the files of the archive, as opposed to opening and closing the connection.\<close>

definition transfer_op :: "ftp_op \<Rightarrow> bool" where
  "transfer_op op \<longleftrightarrow> op \<noteq> ConnectToFtp \<and> op \<noteq> OnDestroy"

section \<open>Example inputs\<close>

text \<open>
  An archive and a database that never fail, an archive that refuses to remove a path that
  holds no file, an archive that refuses every upload, one that refuses the uploads of thumbs
  only, and a database that refuses every save.
\<close>

definition env_ok :: env where
  "env_ok = \<lparr>ftp_fault = (\<lambda>s op. False), db_fault = (\<lambda>d op. False), now = 100\<rparr>"




definition env_save_fails :: env where
  "env_save_fails =
     \<lparr>ftp_fault = (\<lambda>s op. False),
      db_fault = (\<lambda>d op. case op of SavePersonFingerprint a b \<Rightarrow> True | _ \<Rightarrow> False), now = 100\<rparr>"

definition thumb :: fingerprint_type where
  "thumb = \<lparr>ft_id = 1, name = ''thumb'', short_name = ''TH''\<rparr>"

definition index_finger :: fingerprint_type where
  "index_finger = \<lparr>ft_id = 2, name = ''index'', short_name = ''IX''\<rparr>"

definition juan :: person where
  "juan = \<lparr>p_id = 1, identityCard = ''4455667''\<rparr>"

text \<open>The stored record of the thumb of person 1, with the given attempts and quality.\<close>

definition thumb_row :: "int \<Rightarrow> int \<Rightarrow> person_fingerprint" where
  "thumb_row a q =
     \<lparr>pf_id = Some 1, pf_person = 1, quality = q, attempts = a,
      path = ''Person/Fingerprints/1/TH.wsq'', fingerprintType = thumb, updatedAt = 50\<rparr>"

text \<open>A world with the given stored records and the given file names in the directory of person 1.\<close>

definition world_of :: "person_fingerprint list \<Rightarrow> string list \<Rightarrow> world" where
  "world_of rows names =
     \<lparr>db = \<lparr>persons = [juan], fingerprintTypes = [thumb, index_finger], personFingerprints = rows, next_id = 2\<rparr>,
      ftp = \<lparr>ftp_files = map (\<lambda>n. (''Person/Fingerprints/1/'' @ n, ''AA'')) names,
             ftp_connected = False, ftp_log = []\<rparr>\<rparr>"

definition scan :: "nat \<Rightarrow> int \<Rightarrow> fingerprint_dto" where
  "scan tid q = \<lparr>wsq = ''BB'', dto_quality = q, fingerprintTypeId = tid\<rparr>"

definition no_results :: upload_results where
  "no_results = \<lparr>success = [], error = []\<rparr>"

definition batch :: "nat \<Rightarrow> fingerprint_dto list \<Rightarrow> create_person_fingerprint_dto" where
  "batch pid fs = \<lparr>personId = pid, fingerprints = fs\<rparr>"

section \<open>Properties\<close>


subsection \<open>Replacing a row\<close>

lemma find_map_replace:
  "find P xs = Some r \<Longrightarrow> P r' \<Longrightarrow> pf_id r = Some i \<Longrightarrow>
   find P (map (\<lambda>x. if pf_id x = Some i then r' else x) xs) = Some r'"
  by (induction xs) (auto split: if_splits)

subsection \<open>The least number of the candidates\<close>

lemma foldl_smallest:
  "foldl (\<lambda>m n. if enat n < m then enat n else m) a xs = Min (insert a (enat ` set xs))"
proof (induction xs arbitrary: a)
  case Nil
  then show ?case by simp
next
  case (Cons x xs)
  have m: "(if enat x < a then enat x else a) = min (enat x) a" by (auto simp: min_def)
  have "Min (insert (min (enat x) a) (enat ` set xs)) = Min (insert a (insert (enat x) (enat ` set xs)))"
  proof (cases "set xs = {}")
    case True
    then show ?thesis by (simp add: min.commute)
  next
    case False
    then show ?thesis by (simp add: min.commute min.assoc)
  qed
  then show ?case using Cons m by simp
qed


lemma set_truthy:
  "set (List.map_filter (\<lambda>number. if Boolean number then number else None) numbers)
     = parsedNumbers numbers - {0}"
  by (induction numbers)
    (auto simp: parsedNumbers_def Boolean_def List.map_filter_simps split: option.splits if_splits)

lemma smallestNumber_Min:
  "smallestNumber numbers = Min (insert \<infinity> (enat ` (parsedNumbers numbers - {0})))"
  by (simp add: smallestNumber_def foldl_smallest set_truthy)



lemma smallestNumber_empty:
  "parsedNumbers numbers = {} \<Longrightarrow> smallestNumber numbers = \<infinity>"
  by (simp add: smallestNumber_Min)






subsection \<open>One scan against a stored record\<close>

lemma logged_simps [simp]:
  "ftp_files (logged op s) = ftp_files s"
  "ftp_connected (logged op s) = ftp_connected s"
  "ftp_log (logged op s) = ftp_log s @ [op]"
  by (simp_all add: logged_def)

lemma updateExisting_simps [simp]:
  "pf_id (updateExisting e q r) = pf_id r"
  "pf_person (updateExisting e q r) = pf_person r"
  "fingerprintType (updateExisting e q r) = fingerprintType r"
  "path (updateExisting e q r) = path r"
  "attempts (updateExisting e q r) = attempts r + 1"
  "quality (updateExisting e q r) = max (quality r) q"
  "updatedAt (updateExisting e q r) = (if q > quality r then now e else updatedAt r)"
  by (simp_all add: updateExisting_def Let_def max_def)

lemma findOne_Some:
  assumes "personFingerprintRepository_findOne e d pid tid = Inr (Some r)"
  shows "pf_person r = pid" "ft_id (fingerprintType r) = tid" "r \<in> set (personFingerprints d)"
    "find (\<lambda>x. pf_person x = pid \<and> ft_id (fingerprintType x) = tid) (personFingerprints d) = Some r"
  using assms
  by (auto simp: personFingerprintRepository_findOne_def find_Some_iff split: if_splits)

lemma prepare_existing:
  "personFingerprintRepository_findOne e d pid (fingerprintTypeId f) = Inr (Some r) \<Longrightarrow>
   prepareFingerprint e pid p f d = Inr (updateExisting e (dto_quality f) r, fingerprintType r)"
  by (simp add: prepareFingerprint_def)

lemma save_existing:
  "pf_id r = Some i \<Longrightarrow> \<not> db_fault e d (SavePersonFingerprint (pf_person r) (ft_id (fingerprintType r)))
   \<Longrightarrow> personFingerprintRepository_save e r d = (Inr r, replaceRow i r d)"
  by (simp add: personFingerprintRepository_save_def)

lemma process_existing:
  assumes f: "personFingerprintRepository_findOne e (db w) pid (fingerprintTypeId f) = Inr (Some r)"
    and i: "pf_id r = Some i"
    and s: "\<not> db_fault e (db w) (SavePersonFingerprint pid (fingerprintTypeId f))"
  shows "processFingerprint e pid p acc f w =
     (case tryUpload e (initialPath pid) (updateExisting e (dto_quality f) r) (dto_quality f) (wsq f)
             (initialPath pid @ short_name (fingerprintType r) @ ''_'' @ show_int (dto_quality f) @ ''.wsq'')
             (ftp w) of
        (Inr u, s1) \<Rightarrow> (Inr (acc\<lparr>success := success acc @ [name (fingerprintType r)]\<rparr>),
                        \<lparr>db = replaceRow i (updateExisting e (dto_quality f) r) (db w), ftp = s1\<rparr>)
      | (Inl x, s1) \<Rightarrow> (Inr (acc\<lparr>error := error acc @ [name (fingerprintType r)]\<rparr>),
                        \<lparr>db = replaceRow i (updateExisting e (dto_quality f) r) (db w), ftp = s1\<rparr>))"
proof -
  have sv: "personFingerprintRepository_save e (updateExisting e (dto_quality f) r) (db w)
       = (Inr (updateExisting e (dto_quality f) r), replaceRow i (updateExisting e (dto_quality f) r) (db w))"
    using i s findOne_Some(1,2) [OF f] by (intro save_existing) simp_all
  show ?thesis
    by (simp add: processFingerprint_def prepare_existing [OF f] sv Let_def)
qed

lemma find_replaceRow:
  assumes "personFingerprintRepository_findOne e d pid tid = Inr (Some r)" "pf_id r = Some i"
  shows "find (\<lambda>x. pf_person x = pid \<and> ft_id (fingerprintType x) = tid)
           (personFingerprints (replaceRow i (updateExisting e' q r) d)) = Some (updateExisting e' q r)"
  using findOne_Some [OF assms(1)] assms(2)
  by (simp add: replaceRow_def find_map_replace)



subsection \<open>The operations sent to the archive\<close>

lemma uploadFile_log [simp]:
  "ftp_log (snd (uploadFile e b dir pth s)) = ftp_log s @ [UploadFile dir pth]"
  by (simp add: uploadFile_def)

lemma removeFile_log [simp]:
  "ftp_log (snd (removeFile e pth s)) = ftp_log s @ [RemoveFile pth]"
  by (simp add: removeFile_def)

lemma listFiles_snd [simp]: "snd (listFiles e dir s) = logged (ListFiles dir) s"
  by (simp add: listFiles_def)

lemma tryUpload_direct:
  "\<not> 3 < attempts r \<Longrightarrow> tryUpload e dir r q b pth s = uploadFile e b dir pth s"
  by (simp add: tryUpload_def)

lemma tryUpload_lists:
  assumes "3 < attempts r"
  shows "\<exists>rest. ftp_log (snd (tryUpload e dir r q b pth s)) = ftp_log s @ ListFiles dir # rest"
proof (cases "listFiles e dir s")
  case (Pair res s1)
  then have s1: "s1 = logged (ListFiles dir) s" using listFiles_snd [of e dir s] by simp
  show ?thesis
  proof (cases res)
    case (Inl x)
    then show ?thesis using assms Pair s1 by (simp add: tryUpload_def)
  next
    case (Inr files)
    let ?numbers = "candidateNumbers (short_name (fingerprintType r)) files"
    show ?thesis
    proof (cases "number_lt (smallestNumber ?numbers) q \<and> \<not> quality_exist q ?numbers")
      case False
      then show ?thesis using assms Pair Inr s1 by (auto simp add: tryUpload_def Let_def)
    next
      case True
      let ?rp = "dir @ short_name (fingerprintType r) @ ''_'' @ show_number (smallestNumber ?numbers) @ ''.wsq''"
      obtain res2 s2 where r2: "removeFile e ?rp s1 = (res2, s2)" by (cases "removeFile e ?rp s1")
      then have l2: "ftp_log s2 = ftp_log s @ [ListFiles dir, RemoveFile ?rp]"
        using removeFile_log [of e ?rp s1] s1 by simp
      show ?thesis
      proof (cases res2)
        case (Inl x)
        then show ?thesis using assms Pair Inr True r2 l2 by (simp add: tryUpload_def Let_def)
      next
        case (Inr u)
        then show ?thesis using assms Pair \<open>res = Inr files\<close> True r2 l2
          by (simp add: tryUpload_def Let_def)
      qed
    qed
  qed
qed

lemma tryUpload_no_action:
  assumes "3 < attempts r" "\<not> ftp_fault e s (ListFiles dir)"
    and "\<not> (number_lt (smallestNumber (candidateNumbers (short_name (fingerprintType r)) (directory dir (ftp_files s)))) q
           \<and> \<not> quality_exist q (candidateNumbers (short_name (fingerprintType r)) (directory dir (ftp_files s))))"
  shows "tryUpload e dir r q b pth s = (Inr (), logged (ListFiles dir) s)"
  using assms by (auto simp add: tryUpload_def listFiles_def Let_def)

lemma process_save_fault:
  assumes f: "personFingerprintRepository_findOne e (db w) pid (fingerprintTypeId f) = Inr (Some r)"
    and s: "db_fault e (db w) (SavePersonFingerprint pid (fingerprintTypeId f))"
  shows "processFingerprint e pid p acc f w =
           (Inl (QueryFailedError (SavePersonFingerprint pid (fingerprintTypeId f))), w)"
  using s findOne_Some(1,2) [OF f]
  by (simp add: processFingerprint_def prepare_existing [OF f] personFingerprintRepository_save_def Let_def)

lemma process_existing_db:
  assumes f: "personFingerprintRepository_findOne e (db w) pid (fingerprintTypeId f) = Inr (Some r)"
    and i: "pf_id r = Some i"
    and s: "\<not> db_fault e (db w) (SavePersonFingerprint pid (fingerprintTypeId f))"
  shows "db (snd (processFingerprint e pid p acc f w)) = replaceRow i (updateExisting e (dto_quality f) r) (db w)"
    and "\<exists>acc'. fst (processFingerprint e pid p acc f w) = Inr acc'"
    and "ftp (snd (processFingerprint e pid p acc f w)) =
           snd (tryUpload e (initialPath pid) (updateExisting e (dto_quality f) r) (dto_quality f) (wsq f)
             (initialPath pid @ short_name (fingerprintType r) @ ''_'' @ show_int (dto_quality f) @ ''.wsq'')
             (ftp w))"
  by (auto simp add: process_existing [OF f i s] split: prod.splits sum.splits)



subsection \<open>One scan without a stored record\<close>

lemma ftp_fault_irrelevant [simp]:
  "personFingerprintRepository_findOne (e\<lparr>ftp_fault := g\<rparr>) d pid tid = personFingerprintRepository_findOne e d pid tid"
  "fingerprintTypeRepository_findOne (e\<lparr>ftp_fault := g\<rparr>) d tid = fingerprintTypeRepository_findOne e d tid"
  "updateExisting (e\<lparr>ftp_fault := g\<rparr>) q r = updateExisting e q r"
  "personFingerprintRepository_create (e\<lparr>ftp_fault := g\<rparr>) p q t pth = personFingerprintRepository_create e p q t pth"
  by (simp_all add: personFingerprintRepository_findOne_def fingerprintTypeRepository_findOne_def
      updateExisting_def personFingerprintRepository_create_def)

lemma prepare_new:
  "personFingerprintRepository_findOne e d pid (fingerprintTypeId f) = Inr None \<Longrightarrow>
   fingerprintTypeRepository_findOne e d (fingerprintTypeId f) = Inr (Some t) \<Longrightarrow>
   prepareFingerprint e pid p f d =
     Inr (personFingerprintRepository_create e p (dto_quality f) t (initialPath pid @ short_name t @ ''.wsq''), t)"
  by (simp add: prepareFingerprint_def)

lemma save_new:
  "pf_id r = None \<Longrightarrow> \<not> db_fault e d (SavePersonFingerprint (pf_person r) (ft_id (fingerprintType r)))
   \<Longrightarrow> personFingerprintRepository_save e r d = (Inr (r\<lparr>pf_id := Some (next_id d)\<rparr>), insertRow r d)"
  by (simp add: personFingerprintRepository_save_def)

lemma create_simps [simp]:
  "pf_id (personFingerprintRepository_create e p q t pth) = None"
  "pf_person (personFingerprintRepository_create e p q t pth) = p_id p"
  "fingerprintType (personFingerprintRepository_create e p q t pth) = t"
  "attempts (personFingerprintRepository_create e p q t pth) = 1"
  "quality (personFingerprintRepository_create e p q t pth) = q"
  "path (personFingerprintRepository_create e p q t pth) = pth"
  by (simp_all add: personFingerprintRepository_create_def default_attempts_def)

lemma process_new:
  assumes f: "personFingerprintRepository_findOne e (db w) pid (fingerprintTypeId f) = Inr None"
    and t: "fingerprintTypeRepository_findOne e (db w) (fingerprintTypeId f) = Inr (Some t)"
    and s: "\<not> db_fault e (db w) (SavePersonFingerprint (p_id p) (ft_id t))"
  shows "processFingerprint e pid p acc f w =
     (case uploadFile e (wsq f) (initialPath pid)
             (initialPath pid @ short_name t @ ''_'' @ show_int (dto_quality f) @ ''.wsq'') (ftp w) of
        (Inr u, s1) \<Rightarrow> (Inr (acc\<lparr>success := success acc @ [name t]\<rparr>),
                        \<lparr>db = insertRow (personFingerprintRepository_create e p (dto_quality f) t
                                           (initialPath pid @ short_name t @ ''.wsq'')) (db w), ftp = s1\<rparr>)
      | (Inl x, s1) \<Rightarrow> (Inr (acc\<lparr>error := error acc @ [name t]\<rparr>),
                        \<lparr>db = insertRow (personFingerprintRepository_create e p (dto_quality f) t
                                           (initialPath pid @ short_name t @ ''.wsq'')) (db w), ftp = s1\<rparr>))"
proof -
  let ?r = "personFingerprintRepository_create e p (dto_quality f) t (initialPath pid @ short_name t @ ''.wsq'')"
  have sv: "personFingerprintRepository_save e ?r (db w) = (Inr (?r\<lparr>pf_id := Some (next_id (db w))\<rparr>), insertRow ?r (db w))"
    using s by (intro save_new) simp_all
  show ?thesis
    by (simp add: processFingerprint_def prepare_new [OF f t] sv Let_def tryUpload_direct)
qed

lemma process_new_db:
  assumes f: "personFingerprintRepository_findOne e (db w) pid (fingerprintTypeId f) = Inr None"
    and t: "fingerprintTypeRepository_findOne e (db w) (fingerprintTypeId f) = Inr (Some t)"
    and s: "\<not> db_fault e (db w) (SavePersonFingerprint (p_id p) (ft_id t))"
  shows "db (snd (processFingerprint e pid p acc f w)) =
           insertRow (personFingerprintRepository_create e p (dto_quality f) t
                        (initialPath pid @ short_name t @ ''.wsq'')) (db w)"
    and "\<exists>acc'. fst (processFingerprint e pid p acc f w) = Inr acc'"
    and "ftp (snd (processFingerprint e pid p acc f w)) =
           snd (uploadFile e (wsq f) (initialPath pid)
             (initialPath pid @ short_name t @ ''_'' @ show_int (dto_quality f) @ ''.wsq'') (ftp w))"
  by (auto simp add: process_new [OF f t s] split: prod.splits sum.splits)



subsection \<open>The download loop\<close>

lemma downloadFile_state [simp]:
  "snd (downloadFile e pth s) = logged (DownloadFile pth) s"
  by (simp add: downloadFile_def split: option.splits)

lemma downloadFile_Inr:
  "fst (downloadFile e pth s) = Inr c \<Longrightarrow> map_of (ftp_files s) pth = Some c"
  "fst (downloadFile e pth s) = Inr c \<Longrightarrow> \<not> ftp_fault e s (DownloadFile pth)"
  by (simp_all add: downloadFile_def split: option.splits if_splits)

lemma downloadFile_missing:
  "map_of (ftp_files s) pth = None \<Longrightarrow> \<exists>x. fst (downloadFile e pth s) = Inl x"
  by (simp add: downloadFile_def)

lemma downloadFingerprints_spec:
  "\<exists>k \<le> length fps.
      ftp_log (snd (downloadFingerprints e fps acc s)) = ftp_log s @ map (\<lambda>f. DownloadFile (path f)) (take k fps)
    \<and> ftp_files (snd (downloadFingerprints e fps acc s)) = ftp_files s
    \<and> ftp_connected (snd (downloadFingerprints e fps acc s)) = ftp_connected s
    \<and> (case fst (downloadFingerprints e fps acc s) of
         Inr items \<Rightarrow> k = length fps \<and> (\<exists>new. items = acc @ new \<and> list_all2 (downloaded (ftp_files s)) fps new)
                       \<and> (\<forall>f \<in> set fps. \<exists>s'. \<not> ftp_fault e s' (DownloadFile (path f)))
       | Inl x \<Rightarrow> \<exists>f \<in> set fps. x = Error (''Failed to download file at path: '' @ path f))"
proof (induction fps arbitrary: acc s)
  case Nil
  then show ?case by simp
next
  case (Cons f fps)
  show ?case
  proof (cases "fst (downloadFile e (path f) s)")
    case (Inl x)
    then have "downloadFingerprints e (f # fps) acc s =
        (Inl (Error (''Failed to download file at path: '' @ path f)), logged (DownloadFile (path f)) s)"
      by (cases "downloadFile e (path f) s") (use downloadFile_state [of e "path f" s] in auto)
    then show ?thesis by (intro exI [of _ 1]) simp
  next
    case (Inr c)
    let ?it = "\<lparr>ci_id = pf_id f, ci_quality = quality f, ci_fingerprintType = fingerprintType f, wsqBase64 = c\<rparr>"
    let ?s1 = "logged (DownloadFile (path f)) s"
    have step: "downloadFingerprints e (f # fps) acc s = downloadFingerprints e fps (acc @ [?it]) ?s1"
      using Inr by (cases "downloadFile e (path f) s") (use downloadFile_state [of e "path f" s] in auto)
    have d: "downloaded (ftp_files s) f ?it"
      using downloadFile_Inr(1) [OF Inr] by (simp add: downloaded_def)
    have nf: "\<exists>s'. \<not> ftp_fault e s' (DownloadFile (path f))"
      using downloadFile_Inr(2) [OF Inr] by blast
    from Cons.IH [of "acc @ [?it]" ?s1] obtain k where k: "k \<le> length fps"
      "ftp_log (snd (downloadFingerprints e fps (acc @ [?it]) ?s1)) = ftp_log ?s1 @ map (\<lambda>f. DownloadFile (path f)) (take k fps)"
      "ftp_files (snd (downloadFingerprints e fps (acc @ [?it]) ?s1)) = ftp_files ?s1"
      "ftp_connected (snd (downloadFingerprints e fps (acc @ [?it]) ?s1)) = ftp_connected ?s1"
      "(case fst (downloadFingerprints e fps (acc @ [?it]) ?s1) of
         Inr items \<Rightarrow> k = length fps \<and> (\<exists>new. items = (acc @ [?it]) @ new \<and> list_all2 (downloaded (ftp_files ?s1)) fps new)
                       \<and> (\<forall>f \<in> set fps. \<exists>s'. \<not> ftp_fault e s' (DownloadFile (path f)))
       | Inl x \<Rightarrow> \<exists>f \<in> set fps. x = Error (''Failed to download file at path: '' @ path f))"
      by blast
    have "(case fst (downloadFingerprints e fps (acc @ [?it]) ?s1) of
         Inr items \<Rightarrow> Suc k = length (f # fps) \<and> (\<exists>new. items = acc @ new \<and> list_all2 (downloaded (ftp_files s)) (f # fps) new)
                       \<and> (\<forall>f \<in> set (f # fps). \<exists>s'. \<not> ftp_fault e s' (DownloadFile (path f)))
       | Inl x \<Rightarrow> \<exists>f \<in> set (f # fps). x = Error (''Failed to download file at path: '' @ path f))"
    proof (cases "fst (downloadFingerprints e fps (acc @ [?it]) ?s1)")
      case (Inl x)
      then show ?thesis using k(5) by auto
    next
      case (Inr items)
      then obtain new where "k = length fps" "items = (acc @ [?it]) @ new" "list_all2 (downloaded (ftp_files s)) fps new"
        and rest: "\<forall>f \<in> set fps. \<exists>s'. \<not> ftp_fault e s' (DownloadFile (path f))"
        using k(5) by auto
      then have "items = acc @ (?it # new) \<and> list_all2 (downloaded (ftp_files s)) (f # fps) (?it # new)"
        using d by simp
      then have "\<exists>new. items = acc @ new \<and> list_all2 (downloaded (ftp_files s)) (f # fps) new" by blast
      then show ?thesis using Inr \<open>k = length fps\<close> rest nf by simp
    qed
    then show ?thesis using k(1-4) unfolding step by (intro exI [of _ "Suc k"]) simp
  qed
qed



lemma list_all2_witness: "list_all2 P xs ys \<Longrightarrow> x \<in> set xs \<Longrightarrow> \<exists>y. P x y"
  by (auto simp: list_all2_conv_all_nth in_set_conv_nth)

lemma onDestroy_simps [simp]:
  "ftp_files (onDestroy s) = ftp_files s"
  "ftp_connected (onDestroy s) = False"
  "ftp_log (onDestroy s) = ftp_log s @ [OnDestroy]"
  by (simp_all add: onDestroy_def)



subsection \<open>The eviction\<close>







subsection \<open>The batch\<close>













lemma create_found:
  assumes "findOnePerson e (db w) (personId dto) = Inr p" "\<not> ftp_fault e (ftp w) ConnectToFtp"
  shows "createPersonFingerPrint e dto w =
     (case reduceFingerprints e (personId dto) p (fingerprints dto) \<lparr>success = [], error = []\<rparr>
             (w\<lparr>ftp := (logged ConnectToFtp (ftp w))\<lparr>ftp_connected := True\<rparr>\<rparr>) of
        (Inl x, w2) \<Rightarrow> (Inl x, w2)
      | (Inr uploadResults, w2) \<Rightarrow>
          (Inr \<lparr>message = registered_message (success uploadResults), registros = uploadResults\<rparr>,
           w2\<lparr>ftp := onDestroy (ftp w2)\<rparr>))"
  using assms by (simp add: createPersonFingerPrint_def connectToFtp_def Let_def)




subsection \<open>The connection and the files during a batch\<close>

lemma map_of_upload_other:
  "k \<noteq> p \<Longrightarrow> map_of (filter (\<lambda>(q, c). q \<noteq> p) fs @ [(p, b)]) k = map_of fs k"
  by (induction fs) (auto simp add: map_add_def split: option.splits)

lemma uploadFile_other:
  "k \<noteq> pth \<Longrightarrow> map_of (ftp_files (snd (uploadFile e b dir pth s))) k = map_of (ftp_files s) k"
  by (simp add: uploadFile_def map_of_upload_other del: map_of_append)

lemma suffixed_path_differs: "dir @ short @ ''.wsq'' \<noteq> dir @ short @ ''_'' @ q @ ''.wsq''"
  by simp

lemma tryUpload_session:
  "\<exists>ops. ftp_log (snd (tryUpload e dir r q b pth s)) = ftp_log s @ ops \<and> list_all transfer_op ops
        \<and> ftp_connected (snd (tryUpload e dir r q b pth s)) = ftp_connected s"
  by (simp add: tryUpload_def listFiles_def removeFile_def uploadFile_def logged_def transfer_op_def Let_def)

lemma process_session:
  "\<exists>ops. ftp_log (ftp (snd (processFingerprint e pid p acc f w))) = ftp_log (ftp w) @ ops
        \<and> list_all transfer_op ops
        \<and> ftp_connected (ftp (snd (processFingerprint e pid p acc f w))) = ftp_connected (ftp w)"
proof (cases "prepareFingerprint e pid p f (db w)")
  case (Inl x)
  then show ?thesis by (simp add: processFingerprint_def)
next
  case (Inr rt)
  obtain r t where rt: "rt = (r, t)" by (cases rt)
  obtain res d1 where sv: "personFingerprintRepository_save e r (db w) = (res, d1)"
    by (cases "personFingerprintRepository_save e r (db w)")
  show ?thesis
  proof (cases res)
    case (Inl x)
    then show ?thesis using Inr rt sv by (simp add: processFingerprint_def)
  next
    case (Inr r')
    let ?t = "tryUpload e (initialPath pid) r' (dto_quality f) (wsq f)
                (initialPath pid @ short_name (fingerprintType r') @ ''_'' @ show_int (dto_quality f) @ ''.wsq'') (ftp w)"
    have "ftp (snd (processFingerprint e pid p acc f w)) = snd ?t"
      using \<open>prepareFingerprint e pid p f (db w) = Inr rt\<close> rt sv Inr
      by (simp add: processFingerprint_def Let_def split: prod.splits sum.splits)
    then show ?thesis using tryUpload_session [of e "initialPath pid" r' "dto_quality f" "wsq f" _ "ftp w"]
      by simp
  qed
qed

lemma reduce_session:
  "\<exists>ops. ftp_log (ftp (snd (reduceFingerprints e pid p fs acc w))) = ftp_log (ftp w) @ ops
        \<and> list_all transfer_op ops
        \<and> ftp_connected (ftp (snd (reduceFingerprints e pid p fs acc w))) = ftp_connected (ftp w)"
proof (induction fs arbitrary: acc w)
  case Nil
  then show ?case by simp
next
  case (Cons f fs)
  obtain res w1 where st: "processFingerprint e pid p acc f w = (res, w1)"
    by (cases "processFingerprint e pid p acc f w")
  from process_session [of e pid p acc f w] st obtain ops where ops:
    "ftp_log (ftp w1) = ftp_log (ftp w) @ ops" "list_all transfer_op ops"
    "ftp_connected (ftp w1) = ftp_connected (ftp w)" by auto
  show ?case
  proof (cases res)
    case (Inl x)
    then show ?thesis using st ops by auto
  next
    case (Inr acc1)
    from Cons.IH [of acc1 w1] obtain ops' where
      "ftp_log (ftp (snd (reduceFingerprints e pid p fs acc1 w1))) = ftp_log (ftp w1) @ ops'"
      "list_all transfer_op ops'"
      "ftp_connected (ftp (snd (reduceFingerprints e pid p fs acc1 w1))) = ftp_connected (ftp w1)"
      by blast
    then show ?thesis using st Inr ops by (intro exI [of _ "ops @ ops'"]) simp
  qed
qed

lemma create_not_found:
  assumes "findOnePerson e (db w) (personId dto) = Inl x" "\<not> ftp_fault e (ftp w) ConnectToFtp"
  shows "createPersonFingerPrint e dto w = (Inl x, w\<lparr>ftp := (logged ConnectToFtp (ftp w))\<lparr>ftp_connected := True\<rparr>\<rparr>)"
  using assms by (simp add: createPersonFingerPrint_def connectToFtp_def Let_def)

subsection \<open>Claims about the update of a stored record\<close>

text \<open>
  C4. A submission against an existing record whose attempts are at most 3 before the call,
  once processed, leaves the stored record of that person and fingerprint type with attempts
  increased by exactly 1 and with the quality \<open>max oldQuality newQuality\<close>; the time of the
  last update is refreshed exactly when the new quality is strictly greater.
\<close>

theorem existing_record_counts_and_keeps_best:
  assumes found: "personFingerprintRepository_findOne e (db w) pid (fingerprintTypeId f) = Inr (Some r)"
    and stored: "pf_id r = Some i"
    and few: "attempts r \<le> 3"
    and ran: "processFingerprint e pid p acc f w = (Inr acc', w')"
  shows "\<exists>r'. find (\<lambda>x. pf_person x = pid \<and> ft_id (fingerprintType x) = fingerprintTypeId f)
                 (personFingerprints (db w')) = Some r'
             \<and> attempts r' = attempts r + 1
             \<and> quality r' = max (quality r) (dto_quality f)
             \<and> updatedAt r' = (if dto_quality f > quality r then now e else updatedAt r)"
proof -
  have nf: "\<not> db_fault e (db w) (SavePersonFingerprint pid (fingerprintTypeId f))"
    using process_save_fault [OF found, of p acc] ran by auto
  have "db w' = replaceRow i (updateExisting e (dto_quality f) r) (db w)"
    using process_existing_db(1) [OF found stored nf, of p acc] ran by simp
  then have "find (\<lambda>x. pf_person x = pid \<and> ft_id (fingerprintType x) = fingerprintTypeId f)
                 (personFingerprints (db w')) = Some (updateExisting e (dto_quality f) r)"
    using find_replaceRow [OF found stored] by simp
  then show ?thesis by simp
qed

theorem existing_record_counts_and_keeps_best_witness:
  "attempts (thumb_row 2 60) \<le> 3 \<and>
   (\<exists>r'. find (\<lambda>x. pf_person x = 1 \<and> ft_id (fingerprintType x) = 1)
            (personFingerprints (db (snd (processFingerprint env_ok 1 juan no_results (scan 1 70)
               (world_of [thumb_row 2 60] [''TH_60.wsq'']))))) = Some r'
        \<and> attempts r' = 3 \<and> quality r' = 70 \<and> updatedAt r' = 100)"
proof -
  let ?w = "world_of [thumb_row 2 60] [''TH_60.wsq'']"
  let ?res = "processFingerprint env_ok 1 juan no_results (scan 1 70) ?w"
  have found: "personFingerprintRepository_findOne env_ok (db ?w) 1 (fingerprintTypeId (scan 1 70))
                 = Inr (Some (thumb_row 2 60))"
    by code_simp
  have stored: "pf_id (thumb_row 2 60) = Some 1" by (simp add: thumb_row_def)
  have few: "attempts (thumb_row 2 60) \<le> 3" by (simp add: thumb_row_def)
  have "fst ?res = Inr \<lparr>success = [''thumb''], error = []\<rparr>" by code_simp
  then have ran: "?res = (Inr \<lparr>success = [''thumb''], error = []\<rparr>, snd ?res)"
    by (metis prod.collapse)
  from existing_record_counts_and_keeps_best [OF found stored few ran] few
  show ?thesis by (simp add: thumb_row_def scan_def env_ok_def)
qed

subsection \<open>Claims about what is saved and reported when the archive is not written\<close>



text \<open>
  C9. When the eviction branch takes no remote action (the listing succeeded and the test
  \<^verbatim>\<open>smallestNumber < quality && !quality_exist\<close> is false: the smallest number is not below
  the new quality, or a candidate carries the new quality, or no candidate has a number), the
  name of the fingerprint type is pushed onto the success list all the same, while the files
  of the archive are unchanged and the listing is the only operation sent.
\<close>

theorem no_remote_action_still_counts_as_success:
  assumes found: "personFingerprintRepository_findOne e (db w) pid (fingerprintTypeId f) = Inr (Some r)"
    and stored: "pf_id r = Some i"
    and saved: "\<not> db_fault e (db w) (SavePersonFingerprint pid (fingerprintTypeId f))"
    and eviction: "attempts r + 1 > 3"
    and listed: "\<not> ftp_fault e (ftp w) (ListFiles (initialPath pid))"
    and declined:
      "\<not> (number_lt (smallestNumber (candidateNumbers (short_name (fingerprintType r))
                (directory (initialPath pid) (ftp_files (ftp w))))) (dto_quality f)
          \<and> \<not> quality_exist (dto_quality f) (candidateNumbers (short_name (fingerprintType r))
                (directory (initialPath pid) (ftp_files (ftp w)))))"
  shows "fst (processFingerprint e pid p acc f w) = Inr (acc\<lparr>success := success acc @ [name (fingerprintType r)]\<rparr>)
       \<and> ftp_files (ftp (snd (processFingerprint e pid p acc f w))) = ftp_files (ftp w)
       \<and> ftp_log (ftp (snd (processFingerprint e pid p acc f w))) = ftp_log (ftp w) @ [ListFiles (initialPath pid)]"
proof -
  have "tryUpload e (initialPath pid) (updateExisting e (dto_quality f) r) (dto_quality f) (wsq f)
             (initialPath pid @ short_name (fingerprintType r) @ ''_'' @ show_int (dto_quality f) @ ''.wsq'')
             (ftp w) = (Inr (), logged (ListFiles (initialPath pid)) (ftp w))"
    using eviction listed declined by (intro tryUpload_no_action) simp_all
  then show ?thesis by (simp add: process_existing [OF found stored saved])
qed

theorem no_remote_action_still_counts_as_success_witness:
  "fst (processFingerprint env_ok 1 juan no_results (scan 1 50)
          (world_of [thumb_row 3 60] [''TH_60.wsq'', ''TH_55.wsq'', ''TH_58.wsq'']))
     = Inr \<lparr>success = [''thumb''], error = []\<rparr>
   \<and> map fst (ftp_files (ftp (snd (processFingerprint env_ok 1 juan no_results (scan 1 50)
          (world_of [thumb_row 3 60] [''TH_60.wsq'', ''TH_55.wsq'', ''TH_58.wsq''])))))
     = [''Person/Fingerprints/1/TH_60.wsq'', ''Person/Fingerprints/1/TH_55.wsq'', ''Person/Fingerprints/1/TH_58.wsq'']
   \<and> ftp_log (ftp (snd (processFingerprint env_ok 1 juan no_results (scan 1 50)
          (world_of [thumb_row 3 60] [''TH_60.wsq'', ''TH_55.wsq'', ''TH_58.wsq'']))))
     = [ListFiles ''Person/Fingerprints/1/'']"
proof -
  let ?w = "world_of [thumb_row 3 60] [''TH_60.wsq'', ''TH_55.wsq'', ''TH_58.wsq'']"
  have found: "personFingerprintRepository_findOne env_ok (db ?w) 1 (fingerprintTypeId (scan 1 50))
                 = Inr (Some (thumb_row 3 60))"
    by code_simp
  have stored: "pf_id (thumb_row 3 60) = Some 1" by (simp add: thumb_row_def)
  have saved: "\<not> db_fault env_ok (db ?w) (SavePersonFingerprint 1 (fingerprintTypeId (scan 1 50)))"
    by (simp add: env_ok_def)
  have eviction: "attempts (thumb_row 3 60) + 1 > 3" by (simp add: thumb_row_def)
  have listed: "\<not> ftp_fault env_ok (ftp ?w) (ListFiles (initialPath 1))" by (simp add: env_ok_def)
  have declined: "\<not> (number_lt (smallestNumber (candidateNumbers (short_name (fingerprintType (thumb_row 3 60)))
                (directory (initialPath 1) (ftp_files (ftp ?w))))) (dto_quality (scan 1 50))
          \<and> \<not> quality_exist (dto_quality (scan 1 50)) (candidateNumbers (short_name (fingerprintType (thumb_row 3 60)))
                (directory (initialPath 1) (ftp_files (ftp ?w)))))"
    by code_simp
  have e1: "no_results\<lparr>success := success no_results @ [name (fingerprintType (thumb_row 3 60))]\<rparr>
              = \<lparr>success = [''thumb''], error = []\<rparr>" by code_simp
  have e2: "map fst (ftp_files (ftp ?w)) =
      [''Person/Fingerprints/1/TH_60.wsq'', ''Person/Fingerprints/1/TH_55.wsq'', ''Person/Fingerprints/1/TH_58.wsq'']"
    by code_simp
  have e3: "ftp_log (ftp ?w) @ [ListFiles (initialPath 1)] = [ListFiles ''Person/Fingerprints/1/'']"
    by code_simp
  from no_remote_action_still_counts_as_success [OF found stored saved eviction listed declined, of juan no_results]
  show ?thesis unfolding e1 e3 using e2 by simp
qed

subsection \<open>Claims about the branch taken\<close>

text \<open>
  C2, as the code has it. The test \<^verbatim>\<open>attempts > 3\<close> reads the counter after its increment. For a
  submission against an existing record: when attempts before the call is at most 2, the only
  operation sent to the archive is the upload of the new file (no listing); when attempts
  before the call is 3 or more, the eviction branch runs, starting with the listing of the
  directory. So the eviction branch runs exactly when attempts before the call is at least 3.
\<close>

theorem eviction_branch_from_the_fourth_attempt:
  assumes found: "personFingerprintRepository_findOne e (db w) pid (fingerprintTypeId f) = Inr (Some r)"
    and stored: "pf_id r = Some i"
    and saved: "\<not> db_fault e (db w) (SavePersonFingerprint pid (fingerprintTypeId f))"
  shows "(attempts r \<le> 2 \<longrightarrow>
            ftp (snd (processFingerprint e pid p acc f w)) =
              snd (uploadFile e (wsq f) (initialPath pid)
                     (initialPath pid @ short_name (fingerprintType r) @ ''_'' @ show_int (dto_quality f) @ ''.wsq'')
                     (ftp w))
          \<and> ftp_log (ftp (snd (processFingerprint e pid p acc f w))) =
              ftp_log (ftp w) @ [UploadFile (initialPath pid)
                     (initialPath pid @ short_name (fingerprintType r) @ ''_'' @ show_int (dto_quality f) @ ''.wsq'')])
       \<and> (attempts r \<ge> 3 \<longrightarrow>
            (\<exists>rest. ftp_log (ftp (snd (processFingerprint e pid p acc f w))) =
                      ftp_log (ftp w) @ ListFiles (initialPath pid) # rest))"
proof (intro conjI impI)
  assume "attempts r \<le> 2"
  then have "\<not> 3 < attempts (updateExisting e (dto_quality f) r)" by simp
  then show "ftp (snd (processFingerprint e pid p acc f w)) =
              snd (uploadFile e (wsq f) (initialPath pid)
                     (initialPath pid @ short_name (fingerprintType r) @ ''_'' @ show_int (dto_quality f) @ ''.wsq'')
                     (ftp w))"
    using process_existing_db(3) [OF found stored saved, of p acc] by (simp add: tryUpload_direct)
  then show "ftp_log (ftp (snd (processFingerprint e pid p acc f w))) =
              ftp_log (ftp w) @ [UploadFile (initialPath pid)
                     (initialPath pid @ short_name (fingerprintType r) @ ''_'' @ show_int (dto_quality f) @ ''.wsq'')]"
    by simp
next
  assume "3 \<le> attempts r"
  then have "3 < attempts (updateExisting e (dto_quality f) r)" by simp
  from tryUpload_lists [OF this]
  show "\<exists>rest. ftp_log (ftp (snd (processFingerprint e pid p acc f w))) =
                      ftp_log (ftp w) @ ListFiles (initialPath pid) # rest"
    using process_existing_db(3) [OF found stored saved, of p acc] by simp
qed

theorem eviction_branch_from_the_fourth_attempt_witness:
  "ftp_log (ftp (snd (processFingerprint env_ok 1 juan no_results (scan 1 55)
       (world_of [thumb_row 2 60] [''TH_60.wsq''])))) =
     [UploadFile ''Person/Fingerprints/1/'' ''Person/Fingerprints/1/TH_55.wsq'']
   \<and> (\<exists>rest. ftp_log (ftp (snd (processFingerprint env_ok 1 juan no_results (scan 1 55)
       (world_of [thumb_row 3 60] [''TH_60.wsq''])))) = ListFiles ''Person/Fingerprints/1/'' # rest)"
proof -
  let ?w2 = "world_of [thumb_row 2 60] [''TH_60.wsq'']" and ?w3 = "world_of [thumb_row 3 60] [''TH_60.wsq'']"
  have found2: "personFingerprintRepository_findOne env_ok (db ?w2) 1 (fingerprintTypeId (scan 1 55))
                 = Inr (Some (thumb_row 2 60))" by code_simp
  have found3: "personFingerprintRepository_findOne env_ok (db ?w3) 1 (fingerprintTypeId (scan 1 55))
                 = Inr (Some (thumb_row 3 60))" by code_simp
  have stored: "pf_id (thumb_row 2 60) = Some 1" "pf_id (thumb_row 3 60) = Some 1" by (simp_all add: thumb_row_def)
  have saved: "\<not> db_fault env_ok (db ?w2) (SavePersonFingerprint 1 (fingerprintTypeId (scan 1 55)))"
     "\<not> db_fault env_ok (db ?w3) (SavePersonFingerprint 1 (fingerprintTypeId (scan 1 55)))"
    by (simp_all add: env_ok_def)
  have few: "attempts (thumb_row 2 60) \<le> 2" and many: "attempts (thumb_row 3 60) \<ge> 3"
    by (simp_all add: thumb_row_def)
  have e2: "ftp_log (ftp ?w2) @ [UploadFile (initialPath 1)
                     (initialPath 1 @ short_name (fingerprintType (thumb_row 2 60)) @ ''_''
                        @ show_int (dto_quality (scan 1 55)) @ ''.wsq'')]
             = [UploadFile ''Person/Fingerprints/1/'' ''Person/Fingerprints/1/TH_55.wsq'']"
    by code_simp
  have e3: "ftp_log (ftp ?w3) @ ListFiles (initialPath 1) # rest = ListFiles ''Person/Fingerprints/1/'' # rest"
    for rest
  proof -
    have "ftp_log (ftp ?w3) = []" by code_simp
    moreover have "initialPath 1 = ''Person/Fingerprints/1/''" by code_simp
    ultimately show ?thesis by simp
  qed
  from eviction_branch_from_the_fourth_attempt [OF found2 stored(1) saved(1), of juan no_results] few
  have a: "ftp_log (ftp (snd (processFingerprint env_ok 1 juan no_results (scan 1 55) ?w2))) =
     [UploadFile ''Person/Fingerprints/1/'' ''Person/Fingerprints/1/TH_55.wsq'']"
    unfolding e2 by blast
  from eviction_branch_from_the_fourth_attempt [OF found3 stored(2) saved(2), of juan no_results] many
  have b: "\<exists>rest. ftp_log (ftp (snd (processFingerprint env_ok 1 juan no_results (scan 1 55) ?w3)))
             = ListFiles ''Person/Fingerprints/1/'' # rest"
    unfolding e3 by blast
  from a b show ?thesis by blast
qed

text \<open>
  With attempts 3 before the call the new file is not uploaded unconditionally: the directory
  is listed, and a scan of quality 50 against the files 60, 55 and 58 is not uploaded at all.
\<close>

theorem upload_unconditional_up_to_three_counterexample:
  "attempts (thumb_row 3 60) \<le> 3
   \<and> personFingerprintRepository_findOne env_ok
        (db (world_of [thumb_row 3 60] [''TH_60.wsq'', ''TH_55.wsq'', ''TH_58.wsq''])) 1 1 = Inr (Some (thumb_row 3 60))
   \<and> ftp_log (ftp (snd (processFingerprint env_ok 1 juan no_results (scan 1 50)
          (world_of [thumb_row 3 60] [''TH_60.wsq'', ''TH_55.wsq'', ''TH_58.wsq'']))))
       = [ListFiles ''Person/Fingerprints/1/'']
   \<and> map_of (ftp_files (ftp (snd (processFingerprint env_ok 1 juan no_results (scan 1 50)
          (world_of [thumb_row 3 60] [''TH_60.wsq'', ''TH_55.wsq'', ''TH_58.wsq'']))))) ''Person/Fingerprints/1/TH_50.wsq''
       = None"
  by code_simp

subsection \<open>Claims about the eviction\<close>




subsection \<open>Claims about the batch\<close>




subsection \<open>Claims about the retrieval for comparison and the list of registered fingerprints\<close>

text \<open>
  C6. For a person that is found: with no fingerprint record, \<open>getFingerprintComparison\<close> fails
  with the 404 exception and touches nothing. With at least one record it opens one connection
  and closes it in the cleanup step on every path (the log grows by one connection, some
  downloads and one disconnection at the end, and the client ends disconnected); a result
  list, when there is one, holds the download of every record, so no partial list is ever
  returned; and when the path of some record holds no file, or the download of the path of
  some record always fails, the whole call fails.
\<close>

theorem getFingerprintComparison_all_or_nothing:
  assumes person: "findOnePerson e (db w) pid = Inr p"
  shows "(person_personFingerprints (db w) p = [] \<longrightarrow>
            getFingerprintComparison e pid w =
              (Inl (RpcException (Some 404) (''Person with ID: '' @ show_nat pid @ '' not found'')), w))
       \<and> (person_personFingerprints (db w) p \<noteq> [] \<longrightarrow>
            (\<exists>res s' mid. getFingerprintComparison e pid w = (res, w\<lparr>ftp := s'\<rparr>)
               \<and> ftp_log s' = ftp_log (ftp w) @ ConnectToFtp # mid @ [OnDestroy]
               \<and> ConnectToFtp \<notin> set mid \<and> OnDestroy \<notin> set mid
               \<and> \<not> ftp_connected s'
               \<and> ftp_files s' = ftp_files (ftp w)
               \<and> (\<forall>items. res = Inr items \<longrightarrow>
                     list_all2 (downloaded (ftp_files (ftp w))) (person_personFingerprints (db w) p) items)
               \<and> ((\<exists>f \<in> set (person_personFingerprints (db w) p).
                       map_of (ftp_files (ftp w)) (path f) = None \<or> (\<forall>s. ftp_fault e s (DownloadFile (path f))))
                     \<longrightarrow> (\<exists>x. res = Inl x))))"
proof (intro conjI impI)
  assume "person_personFingerprints (db w) p = []"
  then show "getFingerprintComparison e pid w =
              (Inl (RpcException (Some 404) (''Person with ID: '' @ show_nat pid @ '' not found'')), w)"
    using person by (simp add: getFingerprintComparison_def)
next
  let ?fps = "person_personFingerprints (db w) p"
  assume ne: "?fps \<noteq> []"
  show "\<exists>res s' mid. getFingerprintComparison e pid w = (res, w\<lparr>ftp := s'\<rparr>)
               \<and> ftp_log s' = ftp_log (ftp w) @ ConnectToFtp # mid @ [OnDestroy]
               \<and> ConnectToFtp \<notin> set mid \<and> OnDestroy \<notin> set mid
               \<and> \<not> ftp_connected s'
               \<and> ftp_files s' = ftp_files (ftp w)
               \<and> (\<forall>items. res = Inr items \<longrightarrow> list_all2 (downloaded (ftp_files (ftp w))) ?fps items)
               \<and> ((\<exists>f \<in> set ?fps. map_of (ftp_files (ftp w)) (path f) = None \<or> (\<forall>s. ftp_fault e s (DownloadFile (path f))))
                     \<longrightarrow> (\<exists>x. res = Inl x))"
  proof (cases "ftp_fault e (ftp w) ConnectToFtp")
    case True
    then have "getFingerprintComparison e pid w =
        (Inl (FtpError ConnectToFtp), w\<lparr>ftp := onDestroy (logged ConnectToFtp (ftp w))\<rparr>)"
      using person ne by (simp add: getFingerprintComparison_def connectToFtp_def)
    then show ?thesis
      by (intro exI [of _ "Inl (FtpError ConnectToFtp)"] exI [of _ "onDestroy (logged ConnectToFtp (ftp w))"]
            exI [of _ "[]"]) simp
  next
    case False
    let ?s1 = "(logged ConnectToFtp (ftp w))\<lparr>ftp_connected := True\<rparr>"
    let ?run = "downloadFingerprints e ?fps [] ?s1"
    have g: "getFingerprintComparison e pid w = (fst ?run, w\<lparr>ftp := onDestroy (snd ?run)\<rparr>)"
      using person ne False
      by (simp add: getFingerprintComparison_def connectToFtp_def split: prod.splits)
    from downloadFingerprints_spec [of ?fps e "[]" ?s1] obtain k where k:
      "ftp_log (snd ?run) = ftp_log ?s1 @ map (\<lambda>f. DownloadFile (path f)) (take k ?fps)"
      "ftp_files (snd ?run) = ftp_files ?s1"
      "(case fst ?run of
         Inr items \<Rightarrow> k = length ?fps \<and> (\<exists>new. items = [] @ new \<and> list_all2 (downloaded (ftp_files ?s1)) ?fps new)
                       \<and> (\<forall>f \<in> set ?fps. \<exists>s'. \<not> ftp_fault e s' (DownloadFile (path f)))
       | Inl x \<Rightarrow> \<exists>f \<in> set ?fps. x = Error (''Failed to download file at path: '' @ path f))"
      by blast
    let ?mid = "map (\<lambda>f. DownloadFile (path f)) (take k ?fps)"
    have all: "\<forall>items. fst ?run = Inr items \<longrightarrow> list_all2 (downloaded (ftp_files (ftp w))) ?fps items"
      using k(3) by (auto split: sum.splits)
    have miss: "(\<exists>f \<in> set ?fps. map_of (ftp_files (ftp w)) (path f) = None \<or> (\<forall>s. ftp_fault e s (DownloadFile (path f))))
                  \<longrightarrow> (\<exists>x. fst ?run = Inl x)"
    proof
      assume "\<exists>f \<in> set ?fps. map_of (ftp_files (ftp w)) (path f) = None \<or> (\<forall>s. ftp_fault e s (DownloadFile (path f)))"
      then obtain f where f: "f \<in> set ?fps"
        "map_of (ftp_files (ftp w)) (path f) = None \<or> (\<forall>s. ftp_fault e s (DownloadFile (path f)))" by blast
      show "\<exists>x. fst ?run = Inl x"
      proof (cases "fst ?run")
        case (Inl x)
        then show ?thesis by blast
      next
        case (Inr items)
        then have "list_all2 (downloaded (ftp_files (ftp w))) ?fps items" using all by blast
        from list_all2_witness [OF this f(1)] have "map_of (ftp_files (ftp w)) (path f) \<noteq> None"
          by (auto simp add: downloaded_def)
        moreover have "\<exists>s'. \<not> ftp_fault e s' (DownloadFile (path f))"
          using k(3) Inr f(1) by simp
        ultimately have False using f(2) by auto
        then show ?thesis by (rule FalseE)
      qed
    qed
    have "ftp_log (onDestroy (snd ?run)) = ftp_log (ftp w) @ ConnectToFtp # ?mid @ [OnDestroy]"
      using k(1) by simp
    moreover have "ConnectToFtp \<notin> set ?mid \<and> OnDestroy \<notin> set ?mid" by auto
    moreover have "ftp_files (onDestroy (snd ?run)) = ftp_files (ftp w)" using k(2) by simp
    ultimately show ?thesis using g all miss
      by (intro exI [of _ "fst ?run"] exI [of _ "onDestroy (snd ?run)"] exI [of _ ?mid]) simp
  qed
qed

theorem getFingerprintComparison_all_or_nothing_witness:
  "fst (getFingerprintComparison env_ok 1 (world_of [thumb_row 1 60] [''TH_60.wsq'']))
      = Inl (Error ''Failed to download file at path: Person/Fingerprints/1/TH.wsq'')
   \<and> \<not> ftp_connected (ftp (snd (getFingerprintComparison env_ok 1 (world_of [thumb_row 1 60] [''TH_60.wsq'']))))
   \<and> (\<exists>x. fst (getFingerprintComparison env_ok 1 (world_of [thumb_row 1 60] [''TH_60.wsq''])) = Inl x)
   \<and> fst (getFingerprintComparison env_ok 1 (world_of [] [])) =
        Inl (RpcException (Some 404) ''Person with ID: 1 not found'')"
proof -
  let ?w = "world_of [thumb_row 1 60] [''TH_60.wsq'']" and ?v = "world_of [] []"
  have person: "findOnePerson env_ok (db ?w) 1 = Inr juan" by code_simp
  have person': "findOnePerson env_ok (db ?v) 1 = Inr juan" by code_simp
  have ne: "person_personFingerprints (db ?w) juan \<noteq> []" by code_simp
  have em: "person_personFingerprints (db ?v) juan = []" by code_simp
  have miss: "\<exists>f \<in> set (person_personFingerprints (db ?w) juan).
      map_of (ftp_files (ftp ?w)) (path f) = None \<or> (\<forall>s. ftp_fault env_ok s (DownloadFile (path f)))"
  proof -
    have "thumb_row 1 60 \<in> set (person_personFingerprints (db ?w) juan)" by code_simp
    moreover have "map_of (ftp_files (ftp ?w)) (path (thumb_row 1 60)) = None" by code_simp
    ultimately show ?thesis by blast
  qed
  have v: "fst (getFingerprintComparison env_ok 1 ?w)
      = Inl (Error ''Failed to download file at path: Person/Fingerprints/1/TH.wsq'')" by code_simp
  have m: "''Person with ID: '' @ show_nat 1 @ '' not found'' = ''Person with ID: 1 not found''" by code_simp
  from getFingerprintComparison_all_or_nothing [OF person] ne miss
  obtain res s' where r: "getFingerprintComparison env_ok 1 ?w = (res, ?w\<lparr>ftp := s'\<rparr>)"
    "\<not> ftp_connected s'" "\<exists>x. res = Inl x" by blast
  from getFingerprintComparison_all_or_nothing [OF person'] em
  have "fst (getFingerprintComparison env_ok 1 ?v) = Inl (RpcException (Some 404) ''Person with ID: 1 not found'')"
    unfolding m by simp
  then show ?thesis using r v by simp
qed

text \<open>
  C10. \<open>showFingerprintRegistered\<close> does not check that the person exists: when the query
  answers and no person has the identifier, it faults with the type error of reading a
  property of null, which is not the 404 exception of the other operations.
\<close>

theorem showFingerprintRegistered_unknown_person_faults:
  assumes answered: "\<not> db_fault e d (FindPersonWithFingerprints pid)"
    and unknown: "\<forall>p \<in> set (persons d). p_id p \<noteq> pid"
  shows "showFingerprintRegistered e d pid = Inl TypeError
       \<and> (\<forall>c m. showFingerprintRegistered e d pid \<noteq> Inl (RpcException c m))"
proof -
  have "find (\<lambda>p. p_id p = pid) (persons d) = None" using unknown by (simp add: find_None_iff)
  then show ?thesis using answered by (simp add: showFingerprintRegistered_def personRepository_findOne_def)
qed

theorem showFingerprintRegistered_unknown_person_faults_witness:
  "showFingerprintRegistered env_ok (db (world_of [] [])) 2 = Inl TypeError
   \<and> findOnePerson env_ok (db (world_of [] [])) 2 = Inl (RpcException (Some 404) ''Persona con 2 no encontrada'')"
proof -
  have answered: "\<not> db_fault env_ok (db (world_of [] [])) (FindPersonWithFingerprints 2)"
    by (simp add: env_ok_def)
  have unknown: "\<forall>p \<in> set (persons (db (world_of [] []))). p_id p \<noteq> 2"
    by (simp add: world_of_def juan_def)
  have other: "findOnePerson env_ok (db (world_of [] [])) 2 = Inl (RpcException (Some 404) ''Persona con 2 no encontrada'')"
    by code_simp
  from showFingerprintRegistered_unknown_person_faults [OF answered unknown] other
  show ?thesis by blast
qed

subsection \<open>Where the code departs from its own record\<close>

text \<open>
  C3. A first submission for a person and fingerprint type (no stored record, the type exists,
  the save succeeds) creates the record with attempts 1 and with the path without suffix,
  \<^verbatim>\<open>{shortName}.wsq\<close>, and sends one operation to the archive: the upload of the file at the
  path with the quality suffix, \<^verbatim>\<open>{shortName}_{quality}.wsq\<close>. What the archive holds at the
  path of the record is what it held before: the submission never creates the file there. In
  the example the archive is empty before, so the retrieval for comparison, which downloads the
  path of the record, fails right after the submission.
\<close>
theorem first_submission_never_writes_the_recorded_path:
  assumes none: "personFingerprintRepository_findOne e (db w) pid (fingerprintTypeId f) = Inr None"
    and typed: "fingerprintTypeRepository_findOne e (db w) (fingerprintTypeId f) = Inr (Some t)"
    and saved: "\<not> db_fault e (db w) (SavePersonFingerprint (p_id p) (ft_id t))"
  shows "personFingerprints (db (snd (processFingerprint e pid p acc f w))) =
           personFingerprints (db w) @
             [\<lparr>pf_id = Some (next_id (db w)), pf_person = p_id p, quality = dto_quality f, attempts = 1,
               path = initialPath pid @ short_name t @ ''.wsq'', fingerprintType = t, updatedAt = now e\<rparr>]
       \<and> ftp_log (ftp (snd (processFingerprint e pid p acc f w))) =
           ftp_log (ftp w) @ [UploadFile (initialPath pid)
              (initialPath pid @ short_name t @ ''_'' @ show_int (dto_quality f) @ ''.wsq'')]
       \<and> map_of (ftp_files (ftp (snd (processFingerprint e pid p acc f w)))) (initialPath pid @ short_name t @ ''.wsq'')
           = map_of (ftp_files (ftp w)) (initialPath pid @ short_name t @ ''.wsq'')"
proof (intro conjI)
  note d = process_new_db [OF none typed saved, of acc]
  show "personFingerprints (db (snd (processFingerprint e pid p acc f w))) =
           personFingerprints (db w) @
             [\<lparr>pf_id = Some (next_id (db w)), pf_person = p_id p, quality = dto_quality f, attempts = 1,
               path = initialPath pid @ short_name t @ ''.wsq'', fingerprintType = t, updatedAt = now e\<rparr>]"
    unfolding d(1) by (simp add: insertRow_def personFingerprintRepository_create_def default_attempts_def)
  show "ftp_log (ftp (snd (processFingerprint e pid p acc f w))) =
           ftp_log (ftp w) @ [UploadFile (initialPath pid)
              (initialPath pid @ short_name t @ ''_'' @ show_int (dto_quality f) @ ''.wsq'')]"
    unfolding d(3) by simp
  show "map_of (ftp_files (ftp (snd (processFingerprint e pid p acc f w)))) (initialPath pid @ short_name t @ ''.wsq'')
           = map_of (ftp_files (ftp w)) (initialPath pid @ short_name t @ ''.wsq'')"
    unfolding d(3) by (rule uploadFile_other) (rule suffixed_path_differs)
qed

theorem first_submission_never_writes_the_recorded_path_witness:
  "personFingerprints (db (snd (processFingerprint env_ok 1 juan no_results (scan 1 60) (world_of [] [])))) =
      [\<lparr>pf_id = Some 2, pf_person = 1, quality = 60, attempts = 1,
        path = ''Person/Fingerprints/1/TH.wsq'', fingerprintType = thumb, updatedAt = 100\<rparr>]
   \<and> ftp_log (ftp (snd (processFingerprint env_ok 1 juan no_results (scan 1 60) (world_of [] [])))) =
      [UploadFile ''Person/Fingerprints/1/'' ''Person/Fingerprints/1/TH_60.wsq'']
   \<and> map_of (ftp_files (ftp (snd (processFingerprint env_ok 1 juan no_results (scan 1 60) (world_of [] [])))))
        ''Person/Fingerprints/1/TH.wsq'' = None
   \<and> ftp_files (ftp (snd (createPersonFingerPrint env_ok (batch 1 [scan 1 60]) (world_of [] []))))
      = [(''Person/Fingerprints/1/TH_60.wsq'', ''BB'')]
   \<and> fst (getFingerprintComparison env_ok 1
            (snd (createPersonFingerPrint env_ok (batch 1 [scan 1 60]) (world_of [] []))))
     = Inl (Error ''Failed to download file at path: Person/Fingerprints/1/TH.wsq'')"
proof -
  let ?w = "world_of [] []"
  have none: "personFingerprintRepository_findOne env_ok (db ?w) 1 (fingerprintTypeId (scan 1 60)) = Inr None"
    by code_simp
  have typed: "fingerprintTypeRepository_findOne env_ok (db ?w) (fingerprintTypeId (scan 1 60)) = Inr (Some thumb)"
    by code_simp
  have saved: "\<not> db_fault env_ok (db ?w) (SavePersonFingerprint (p_id juan) (ft_id thumb))"
    by (simp add: env_ok_def)
  have e1: "personFingerprints (db ?w) @
             [\<lparr>pf_id = Some (next_id (db ?w)), pf_person = p_id juan, quality = dto_quality (scan 1 60), attempts = 1,
               path = ''Person/Fingerprints/1/TH.wsq'', fingerprintType = thumb, updatedAt = now env_ok\<rparr>]
      = [\<lparr>pf_id = Some 2, pf_person = 1, quality = 60, attempts = 1,
        path = ''Person/Fingerprints/1/TH.wsq'', fingerprintType = thumb, updatedAt = 100\<rparr>]"
    by code_simp
  have e2: "ftp_log (ftp ?w) @ [UploadFile (initialPath 1)
              (initialPath 1 @ short_name thumb @ ''_'' @ show_int (dto_quality (scan 1 60)) @ ''.wsq'')]
      = [UploadFile ''Person/Fingerprints/1/'' ''Person/Fingerprints/1/TH_60.wsq'']"
    by code_simp
  have e3: "initialPath 1 @ short_name thumb @ ''.wsq'' = ''Person/Fingerprints/1/TH.wsq''" by code_simp
  have e4: "map_of (ftp_files (ftp ?w)) ''Person/Fingerprints/1/TH.wsq'' = None" by code_simp
  have e5: "ftp_files (ftp (snd (createPersonFingerPrint env_ok (batch 1 [scan 1 60]) ?w)))
      = [(''Person/Fingerprints/1/TH_60.wsq'', ''BB'')]" by code_simp
  have e6: "fst (getFingerprintComparison env_ok 1 (snd (createPersonFingerPrint env_ok (batch 1 [scan 1 60]) ?w)))
     = Inl (Error ''Failed to download file at path: Person/Fingerprints/1/TH.wsq'')" by code_simp
  from first_submission_never_writes_the_recorded_path [OF none typed saved, where acc = no_results]
  show ?thesis unfolding e1 e2 e3 e4 using e5 e6 by blast
qed

text \<open>
  C5. The batch submission opens one connection and closes it only after the loop, outside any
  cleanup block. When the connection opens, the operations in between are transfers only, and
  the disconnection is sent exactly when the batch returns its report: whenever the operation
  ends with an exception (an unknown fingerprint type, a failing lookup or save, a person that
  is not found while the connection is being opened), the log holds the connection and no
  disconnection, and the client stays connected.
\<close>
theorem connection_closed_only_when_the_batch_returns:
  assumes connected: "\<not> ftp_fault e (ftp w) ConnectToFtp"
  shows "\<exists>ops. list_all transfer_op ops
       \<and> (case fst (createPersonFingerPrint e dto w) of
            Inr resp \<Rightarrow>
              ftp_log (ftp (snd (createPersonFingerPrint e dto w))) = ftp_log (ftp w) @ ConnectToFtp # ops @ [OnDestroy]
              \<and> \<not> ftp_connected (ftp (snd (createPersonFingerPrint e dto w)))
          | Inl x \<Rightarrow>
              ftp_log (ftp (snd (createPersonFingerPrint e dto w))) = ftp_log (ftp w) @ ConnectToFtp # ops
              \<and> ftp_connected (ftp (snd (createPersonFingerPrint e dto w))))"
proof (cases "findOnePerson e (db w) (personId dto)")
  case (Inl x)
  show ?thesis unfolding create_not_found [OF Inl connected] by (intro exI [of _ "[]"]) simp
next
  case (Inr p)
  let ?w1 = "w\<lparr>ftp := (logged ConnectToFtp (ftp w))\<lparr>ftp_connected := True\<rparr>\<rparr>"
  let ?run = "reduceFingerprints e (personId dto) p (fingerprints dto) \<lparr>success = [], error = []\<rparr> ?w1"
  from reduce_session [of e "personId dto" p "fingerprints dto" "\<lparr>success = [], error = []\<rparr>" ?w1]
  obtain ops where ops: "ftp_log (ftp (snd ?run)) = ftp_log (ftp w) @ ConnectToFtp # ops"
    "list_all transfer_op ops" "ftp_connected (ftp (snd ?run))"
    by auto
  show ?thesis
  proof (cases "fst ?run")
    case (Inl x)
    then have "createPersonFingerPrint e dto w = (Inl x, snd ?run)"
      unfolding create_found [OF Inr connected] by (cases ?run) simp
    then show ?thesis using ops by (intro exI [of _ ops]) simp
  next
    case (Inr res)
    then have "createPersonFingerPrint e dto w =
        (Inr \<lparr>message = registered_message (success res), registros = res\<rparr>,
         (snd ?run)\<lparr>ftp := onDestroy (ftp (snd ?run))\<rparr>)"
      unfolding create_found [OF \<open>findOnePerson e (db w) (personId dto) = Inr p\<close> connected] by (cases ?run) simp
    then show ?thesis using ops by (intro exI [of _ ops]) simp
  qed
qed

theorem connection_closed_only_when_the_batch_returns_witness:
  "fst (createPersonFingerPrint env_ok (batch 1 [scan 1 60, scan 9 50]) (world_of [] []))
     = Inl (RpcException None ''Tipo de huella con ID 9 no encontrado'')
   \<and> ftp_connected (ftp (snd (createPersonFingerPrint env_ok (batch 1 [scan 1 60, scan 9 50]) (world_of [] []))))
   \<and> ftp_log (ftp (snd (createPersonFingerPrint env_ok (batch 1 [scan 1 60, scan 9 50]) (world_of [] []))))
     = [ConnectToFtp, UploadFile ''Person/Fingerprints/1/'' ''Person/Fingerprints/1/TH_60.wsq'']
   \<and> fst (createPersonFingerPrint env_save_fails (batch 1 [scan 1 60]) (world_of [] []))
     = Inl (QueryFailedError (SavePersonFingerprint 1 1))
   \<and> ftp_connected (ftp (snd (createPersonFingerPrint env_save_fails (batch 1 [scan 1 60]) (world_of [] []))))
   \<and> fst (createPersonFingerPrint env_ok (batch 7 [scan 1 60]) (world_of [] []))
     = Inl (RpcException (Some 404) ''Persona con 7 no encontrada'')
   \<and> ftp_connected (ftp (snd (createPersonFingerPrint env_ok (batch 7 [scan 1 60]) (world_of [] []))))
   \<and> \<not> ftp_connected (ftp (snd (createPersonFingerPrint env_ok (batch 1 [scan 1 60]) (world_of [] []))))"
proof -
  let ?w = "world_of [] []"
  let ?a = "createPersonFingerPrint env_ok (batch 1 [scan 1 60, scan 9 50]) ?w"
  let ?b = "createPersonFingerPrint env_save_fails (batch 1 [scan 1 60]) ?w"
  let ?c = "createPersonFingerPrint env_ok (batch 7 [scan 1 60]) ?w"
  let ?d = "createPersonFingerPrint env_ok (batch 1 [scan 1 60]) ?w"
  have ok: "\<not> ftp_fault env_ok (ftp ?w) ConnectToFtp" by (simp add: env_ok_def)
  have ok': "\<not> ftp_fault env_save_fails (ftp ?w) ConnectToFtp" by (simp add: env_save_fails_def)
  have a: "fst ?a = Inl (RpcException None ''Tipo de huella con ID 9 no encontrado'')" by code_simp
  have b: "fst ?b = Inl (QueryFailedError (SavePersonFingerprint 1 1))" by code_simp
  have c: "fst ?c = Inl (RpcException (Some 404) ''Persona con 7 no encontrada'')" by code_simp
  have d: "fst ?d = Inr \<lparr>message = ''Las huellas: thumb se han registrado correctamente.'',
                          registros = \<lparr>success = [''thumb''], error = []\<rparr>\<rparr>" by code_simp
  have l: "ftp_log (ftp (snd ?a)) = [ConnectToFtp, UploadFile ''Person/Fingerprints/1/'' ''Person/Fingerprints/1/TH_60.wsq'']"
    by code_simp
  from connection_closed_only_when_the_batch_returns [OF ok, of "batch 1 [scan 1 60, scan 9 50]"]
  have ca: "ftp_connected (ftp (snd ?a))" unfolding a by auto
  from connection_closed_only_when_the_batch_returns [OF ok', of "batch 1 [scan 1 60]"]
  have cb: "ftp_connected (ftp (snd ?b))" unfolding b by auto
  from connection_closed_only_when_the_batch_returns [OF ok, of "batch 7 [scan 1 60]"]
  have cc: "ftp_connected (ftp (snd ?c))" unfolding c by auto
  from connection_closed_only_when_the_batch_returns [OF ok, of "batch 1 [scan 1 60]"]
  have cd: "\<not> ftp_connected (ftp (snd ?d))" unfolding d by auto
  from a b c l ca cb cc cd show ?thesis by blast
qed

end
